theory Spec2Isabelle
  imports Main
begin

section \<open>BabelFish: the Language value, its converter registry and the IETF tag parser\<close>

text \<open>
  This theory embeds \<^verbatim>\<open>babelfish/language.py\<close>. A Python string is a sequence of
  Unicode code points and is modelled as a list of natural numbers; exceptions are the
  left summand of a result type; the module-level dictionary \<^verbatim>\<open>LANGUAGE_CONVERTERS\<close>
  and the attributes that \<^verbatim>\<open>setattr\<close>/\<^verbatim>\<open>delattr\<close> install on the class
  \<^verbatim>\<open>Language\<close> form an explicit state that every operation receives and returns.
\<close>

subsection \<open>Python strings\<close>

type_synonym unicode = "nat list"

text \<open>The string of a literal: the code points of its characters.\<close>

definition uni :: "string \<Rightarrow> unicode" where
  "uni s = map of_char s"

definition hyphen :: nat where
  "hyphen = 45"

text \<open>
  U+212A KELVIN SIGN: an upper-case letter outside ASCII whose lower case is the ASCII
  letter \<^verbatim>\<open>k\<close>, and which \<^verbatim>\<open>str.upper\<close> leaves as it is.
\<close>

definition KELVIN_SIGN :: nat where
  "KELVIN_SIGN = 8490"

text \<open>
  \<^verbatim>\<open>str.lower\<close>, \<^verbatim>\<open>str.upper\<close> and \<^verbatim>\<open>str.capitalize\<close>. The case mapping is
  Python's on the ASCII code points and on KELVIN SIGN. Every other code point is left as
  it is, which is Python's mapping for the code points without case but not for the other
  cased letters outside ASCII; the statement that tags equal up to letter case are parsed
  alike is made for ASCII tags, where the mapping is Python's.
\<close>

definition is_upper_letter :: "nat \<Rightarrow> bool" where
  "is_upper_letter c = (65 \<le> c \<and> c \<le> 90)"

definition is_lower_letter :: "nat \<Rightarrow> bool" where
  "is_lower_letter c = (97 \<le> c \<and> c \<le> 122)"

definition lower_char :: "nat \<Rightarrow> nat" where
  "lower_char c =
     (if is_upper_letter c then c + 32 else if c = KELVIN_SIGN then 107 else c)"

definition upper_char :: "nat \<Rightarrow> nat" where
  "upper_char c = (if is_lower_letter c then c - 32 else c)"

definition str_lower :: "unicode \<Rightarrow> unicode" where
  "str_lower s = map lower_char s"

definition str_upper :: "unicode \<Rightarrow> unicode" where
  "str_upper s = map upper_char s"


fun str_capitalize :: "unicode \<Rightarrow> unicode" where
  "str_capitalize [] = []"
| "str_capitalize (c # cs) = upper_char c # map lower_char cs"

text \<open>
  \<^verbatim>\<open>s.split(sep)\<close> for a one-character separator: the result is never empty, and an
  empty input gives one empty field.
\<close>

fun str_split :: "nat \<Rightarrow> unicode \<Rightarrow> unicode list" where
  "str_split sep [] = [[]]"
| "str_split sep (c # cs) =
     (case str_split sep cs of
        [] \<Rightarrow> [[c]]
      | x # xs \<Rightarrow> if c = sep then [] # x # xs else (c # x) # xs)"

subsection \<open>Errors\<close>

text \<open>
  One constructor for each exception the module raises, carrying the values that the
  source puts into the exception: the four \<^verbatim>\<open>ValueError\<close> messages of
  \<^verbatim>\<open>Language.__init__\<close>, \<^verbatim>\<open>Country\<close>, \<^verbatim>\<open>Script\<close> and
  \<^verbatim>\<open>Language.fromietf\<close>, the two of the registry, the converters' own errors, and
  Python's \<^verbatim>\<open>KeyError\<close>, \<^verbatim>\<open>AttributeError\<close>, \<^verbatim>\<open>TypeError\<close> and \<^verbatim>\<open>IndexError\<close>.
\<close>

datatype error =
    ValueError_not_a_valid_language unicode
  | ValueError_not_a_valid_country unicode
  | ValueError_not_a_valid_script unicode
  | ValueError_unmatched_subtags "unicode list"
  | ValueError_converter_already_exists unicode
  | ValueError_converter_does_not_exist unicode
  | LanguageConvertError unicode "unicode option" "unicode option"
  | LanguageReverseError unicode
  | KeyError unicode
  | AttributeError unicode
  | TypeError unicode
  | IndexError unicode

subsection \<open>Code tables and the plugin entry points\<close>

text \<open>
  A converter instance: \<^verbatim>\<open>convert(alpha3, country, script)\<close>, and \<^verbatim>\<open>reverse(code)\<close>
  when the instance is a \<^verbatim>\<open>LanguageReverseConverter\<close>. The tuple that
  \<^verbatim>\<open>reverse\<close> returns is the argument list of the \<^verbatim>\<open>Language\<close> constructor.
\<close>

record converter =
  convert :: "unicode \<Rightarrow> unicode option \<Rightarrow> unicode option \<Rightarrow> error + unicode"
  reverse :: "(unicode \<Rightarrow> error + unicode \<times> unicode option \<times> unicode option) option"

text \<open>
  The data files and the installed entry points are not part of the module; they are
  parameters of the model: the set \<^verbatim>\<open>LANGUAGES\<close>, the keys of the country and script
  tables, and the list that \<^verbatim>\<open>iter_entry_points('babelfish.language_converters')\<close>
  yields.
\<close>

record env =
  LANGUAGES :: "unicode set"
  COUNTRIES :: "unicode set"
  SCRIPTS :: "unicode set"
  entry_points :: "(unicode \<times> converter) list"

subsection \<open>Country and Script\<close>

text \<open>
  Modelled from the spec: \<^verbatim>\<open>country.py\<close> and \<^verbatim>\<open>script.py\<close> are not among the
  sources. Country and Script are closed-table value objects: each holds its code
  (\<^verbatim>\<open>Country.alpha2\<close> and \<^verbatim>\<open>Script.code\<close>, the attributes that
  \<^verbatim>\<open>Language.__getattr__\<close> reads) and two of them are equal when their codes are.
\<close>

datatype Country = Country (alpha2: unicode)

datatype Script = Script (code: unicode)

text \<open>
  Modelled from the spec: the constructors of \<^verbatim>\<open>country.py\<close> and \<^verbatim>\<open>script.py\<close>
  validate the code against the table and fail with \<^verbatim>\<open>ValueError\<close> otherwise.
\<close>

definition Country_init :: "env \<Rightarrow> unicode \<Rightarrow> error + Country" where
  "Country_init e c =
     (if c \<notin> COUNTRIES e then Inl (ValueError_not_a_valid_country c) else Inr (Country c))"

definition Script_init :: "env \<Rightarrow> unicode \<Rightarrow> error + Script" where
  "Script_init e c =
     (if c \<notin> SCRIPTS e then Inl (ValueError_not_a_valid_script c) else Inr (Script c))"

text \<open>
  Modelled from the spec: \<^verbatim>\<open>str(country)\<close> and \<^verbatim>\<open>str(script)\<close> are the codes.
\<close>

definition Country_str :: "Country \<Rightarrow> unicode" where
  "Country_str c = alpha2 c"

definition Script_str :: "Script \<Rightarrow> unicode" where
  "Script_str s = code s"

subsection \<open>Language\<close>

text \<open>
  The three attributes of an instance. \<^verbatim>\<open>Language.__eq__\<close> compares them one by
  one, which is the equality of the record.
\<close>

record Language =
  alpha3 :: unicode
  country :: "Country option"
  script :: "Script option"

text \<open>
  The \<^verbatim>\<open>country\<close> and \<^verbatim>\<open>script\<close> arguments of the constructor are an instance, a
  raw code, or \<^verbatim>\<open>None\<close>.
\<close>

datatype country_arg = Country_instance Country | Country_code unicode

datatype script_arg = Script_instance Script | Script_code unicode

definition Language_init ::
  "env \<Rightarrow> unicode \<Rightarrow> country_arg option \<Rightarrow> script_arg option \<Rightarrow> unicode option
     \<Rightarrow> error + Language" where
  "Language_init e language country_a script_a unknown =
     (let language = (case unknown of
                        Some u \<Rightarrow> if language \<notin> LANGUAGES e then u else language
                      | None \<Rightarrow> language)
      in if language \<notin> LANGUAGES e then Inl (ValueError_not_a_valid_language language)
         else
           case (case country_a of
                   Some (Country_instance c) \<Rightarrow> Inr (Some c)
                 | None \<Rightarrow> Inr None
                 | Some (Country_code c) \<Rightarrow> map_sum id Some (Country_init e c)) of
             Inl err \<Rightarrow> Inl err
           | Inr co \<Rightarrow>
               (case (case script_a of
                        Some (Script_instance s) \<Rightarrow> Inr (Some s)
                      | None \<Rightarrow> Inr None
                      | Some (Script_code s) \<Rightarrow> map_sum id Some (Script_init e s)) of
                  Inl err \<Rightarrow> Inl err
                | Inr sc \<Rightarrow> Inr \<lparr>alpha3 = language, country = co, script = sc\<rparr>))"

subsection \<open>The registry and the class attributes\<close>

text \<open>
  The attributes of the class \<^verbatim>\<open>Language\<close> whose names start with \<^verbatim>\<open>from\<close>: the two
  class methods of the source, and the \<^verbatim>\<open>partial(Language.fromcode, converter=name)\<close>
  objects that registration installs. A \<^verbatim>\<open>partial\<close> of a \<^verbatim>\<open>partial\<close> with the same
  keyword keeps the outer keyword, so a \<^verbatim>\<open>partial\<close> is determined by its converter name.
\<close>

datatype class_attr = Classmethod | Partial_fromcode unicode

record state =
  LANGUAGE_CONVERTERS :: "unicode \<rightharpoonup> converter"
  Language_attrs :: "unicode \<rightharpoonup> class_attr"

definition initial_state :: state where
  "initial_state =
     \<lparr>LANGUAGE_CONVERTERS = Map.empty,
      Language_attrs = [uni ''fromcode'' \<mapsto> Classmethod, uni ''fromietf'' \<mapsto> Classmethod]\<rparr>"

text \<open>
  \<^verbatim>\<open>converter()\<close> instantiates the class; the model passes the instance. Reading
  \<^verbatim>\<open>Language.fromcode\<close> for the \<^verbatim>\<open>partial\<close> raises \<^verbatim>\<open>AttributeError\<close> when the class
  has no such attribute, after the dictionary has been written.
\<close>

definition register_language_converter ::
  "state \<Rightarrow> unicode \<Rightarrow> converter \<Rightarrow> (error + unit) \<times> state" where
  "register_language_converter s name conv =
     (if name \<in> dom (LANGUAGE_CONVERTERS s)
      then (Inl (ValueError_converter_already_exists name), s)
      else
        let s1 = s\<lparr>LANGUAGE_CONVERTERS := (LANGUAGE_CONVERTERS s)(name \<mapsto> conv)\<rparr>
        in if reverse conv \<noteq> None
           then (case Language_attrs s1 (uni ''fromcode'') of
                   None \<Rightarrow> (Inl (AttributeError (uni ''fromcode'')), s1)
                 | Some _ \<Rightarrow>
                     (Inr (),
                      s1\<lparr>Language_attrs :=
                           (Language_attrs s1)(uni ''from'' @ name \<mapsto> Partial_fromcode name)\<rparr>))
           else (Inr (), s1))"

definition unregister_language_converter :: "state \<Rightarrow> unicode \<Rightarrow> (error + unit) \<times> state" where
  "unregister_language_converter s name =
     (case LANGUAGE_CONVERTERS s name of
        None \<Rightarrow> (Inl (ValueError_converter_does_not_exist name), s)
      | Some conv \<Rightarrow>
          if reverse conv \<noteq> None
          then (case Language_attrs s (uni ''from'' @ name) of
                  None \<Rightarrow> (Inl (AttributeError (uni ''from'' @ name)), s)
                | Some _ \<Rightarrow>
                    (Inr (),
                     s\<lparr>Language_attrs := (Language_attrs s)(uni ''from'' @ name := None),
                       LANGUAGE_CONVERTERS := (LANGUAGE_CONVERTERS s)(name := None)\<rparr>))
          else (Inr (), s\<lparr>LANGUAGE_CONVERTERS := (LANGUAGE_CONVERTERS s)(name := None)\<rparr>))"

definition get_language_converter ::
  "env \<Rightarrow> state \<Rightarrow> unicode \<Rightarrow> (error + converter) \<times> state" where
  "get_language_converter e s name =
     (case LANGUAGE_CONVERTERS s name of
        Some conv \<Rightarrow> (Inr conv, s)
      | None \<Rightarrow>
          (case find (\<lambda>ep. fst ep = name) (entry_points e) of
             None \<Rightarrow> (Inl (KeyError name), s)
           | Some ep \<Rightarrow>
               (case register_language_converter s name (snd ep) of
                  (Inl err, s') \<Rightarrow> (Inl err, s')
                | (Inr _, s') \<Rightarrow>
                    (case LANGUAGE_CONVERTERS s' name of
                       None \<Rightarrow> (Inl (KeyError name), s')
                     | Some conv \<Rightarrow> (Inr conv, s')))))"

fun load_entry_points :: "state \<Rightarrow> (unicode \<times> converter) list \<Rightarrow> (error + unit) \<times> state" where
  "load_entry_points s [] = (Inr (), s)"
| "load_entry_points s (ep # eps) =
     (case register_language_converter s (fst ep) (snd ep) of
        (Inl err, s') \<Rightarrow> (Inl err, s')
      | (Inr _, s') \<Rightarrow> load_entry_points s' eps)"

definition load_language_converters :: "env \<Rightarrow> state \<Rightarrow> (error + unit) \<times> state" where
  "load_language_converters e s = load_entry_points s (entry_points e)"

subsection \<open>Named conversions, constructors and the textual form\<close>

text \<open>
  \<^verbatim>\<open>Language.__getattr__\<close>: the \<^verbatim>\<open>except KeyError\<close> clause covers the registry lookup
  and the call of \<^verbatim>\<open>convert\<close>.
\<close>

definition Language_getattr ::
  "env \<Rightarrow> state \<Rightarrow> Language \<Rightarrow> unicode \<Rightarrow> (error + unicode) \<times> state" where
  "Language_getattr e s self name =
     (let a3 = alpha3 self;
          co = (case country self of Some c \<Rightarrow> Some (alpha2 c) | None \<Rightarrow> None);
          sc = (case script self of Some x \<Rightarrow> Some (code x) | None \<Rightarrow> None)
      in case get_language_converter e s name of
           (Inl (KeyError k), s') \<Rightarrow> (Inl (AttributeError name), s')
         | (Inl err, s') \<Rightarrow> (Inl err, s')
         | (Inr conv, s') \<Rightarrow>
             (case convert conv a3 co sc of
                Inl (KeyError k) \<Rightarrow> (Inl (AttributeError name), s')
              | r \<Rightarrow> (r, s')))"

text \<open>The two \<^verbatim>\<open>if\<close> statements of \<^verbatim>\<open>Language.__str__\<close> after the language segment.\<close>

definition str_suffix :: "Language \<Rightarrow> unicode \<Rightarrow> unicode" where
  "str_suffix self s =
     (let s = (case country self of Some c \<Rightarrow> s @ uni ''-'' @ Country_str c | None \<Rightarrow> s);
          s = (case script self of Some x \<Rightarrow> s @ uni ''-'' @ Script_str x | None \<Rightarrow> s)
      in s)"

definition Language_str :: "env \<Rightarrow> state \<Rightarrow> Language \<Rightarrow> (error + unicode) \<times> state" where
  "Language_str e s self =
     (case Language_getattr e s self (uni ''alpha2'') of
        (Inl (LanguageConvertError a c x), s') \<Rightarrow> (Inr (str_suffix self (alpha3 self)), s')
      | (Inl err, s') \<Rightarrow> (Inl err, s')
      | (Inr a2, s') \<Rightarrow> (Inr (str_suffix self a2), s'))"

text \<open>
  \<^verbatim>\<open>Language.__hash__\<close>; the builtin \<^verbatim>\<open>hash\<close> on strings is the parameter \<open>h\<close>.
\<close>

definition Language_hash ::
  "(unicode \<Rightarrow> int) \<Rightarrow> env \<Rightarrow> state \<Rightarrow> Language \<Rightarrow> (error + int) \<times> state" where
  "Language_hash h e s self =
     (case Language_str e s self of
        (Inl err, s') \<Rightarrow> (Inl err, s')
      | (Inr t, s') \<Rightarrow> (Inr (h t), s'))"

text \<open>
  \<^verbatim>\<open>Language.fromcode\<close>. A converter that is not a \<^verbatim>\<open>LanguageReverseConverter\<close> has
  no \<^verbatim>\<open>reverse\<close> attribute.
\<close>

definition fromcode ::
  "env \<Rightarrow> state \<Rightarrow> unicode \<Rightarrow> unicode \<Rightarrow> (error + Language) \<times> state" where
  "fromcode e s c converter_name =
     (case get_language_converter e s converter_name of
        (Inl err, s') \<Rightarrow> (Inl err, s')
      | (Inr conv, s') \<Rightarrow>
          (case reverse conv of
             None \<Rightarrow> (Inl (AttributeError (uni ''reverse'')), s')
           | Some r \<Rightarrow>
               (case r c of
                  Inl err \<Rightarrow> (Inl err, s')
                | Inr (l, co, sc) \<Rightarrow>
                    (Language_init e l (map_option Country_code co)
                       (map_option Script_code sc) None, s'))))"

text \<open>
  \<^verbatim>\<open>cls.fromalpha2(language_subtag)\<close>: the attribute is looked up on the class and
  called with one argument. Only registration binds this name, to a \<^verbatim>\<open>partial\<close>; a
  class method under it would be called without its \<^verbatim>\<open>converter\<close> argument.
\<close>

definition call_fromalpha2 :: "env \<Rightarrow> state \<Rightarrow> unicode \<Rightarrow> (error + Language) \<times> state" where
  "call_fromalpha2 e s c =
     (case Language_attrs s (uni ''fromalpha2'') of
        None \<Rightarrow> (Inl (AttributeError (uni ''fromalpha2'')), s)
      | Some (Partial_fromcode name) \<Rightarrow> fromcode e s c name
      | Some Classmethod \<Rightarrow> (Inl (TypeError (uni ''fromalpha2'')), s))"

text \<open>The \<^verbatim>\<open>while subtags\<close> loop of \<^verbatim>\<open>Language.fromietf\<close>.\<close>

fun fromietf_loop :: "env \<Rightarrow> Language \<Rightarrow> unicode list \<Rightarrow> error + Language" where
  "fromietf_loop e language [] = Inr language"
| "fromietf_loop e language (subtag # subtags) =
     (case (if length subtag = 2
            then (case Country_init e (str_upper subtag) of
                    Inl err \<Rightarrow> Inl err
                  | Inr c \<Rightarrow> Inr (language\<lparr>country := Some c\<rparr>))
            else (case Script_init e (str_capitalize subtag) of
                    Inl err \<Rightarrow> Inl err
                  | Inr x \<Rightarrow> Inr (language\<lparr>script := Some x\<rparr>))) of
        Inl err \<Rightarrow> Inl err
      | Inr language' \<Rightarrow>
          if script language' \<noteq> None
          then (if subtags \<noteq> [] then Inl (ValueError_unmatched_subtags subtags)
                else Inr language')
          else fromietf_loop e language' subtags)"

text \<open>The first five statements of \<^verbatim>\<open>Language.fromietf\<close>: the language subtag.\<close>

definition fromietf_language ::
  "env \<Rightarrow> state \<Rightarrow> unicode \<Rightarrow> (error + Language) \<times> state" where
  "fromietf_language e s subtag =
     (let language_subtag = str_lower subtag
      in if length language_subtag = 2 then call_fromalpha2 e s language_subtag
         else (Language_init e language_subtag None None None, s))"

definition fromietf :: "env \<Rightarrow> state \<Rightarrow> unicode \<Rightarrow> (error + Language) \<times> state" where
  "fromietf e s ietf =
     (case str_split hyphen ietf of
        [] \<Rightarrow> (Inl (IndexError (uni ''pop from empty list'')), s)
      | subtag # subtags \<Rightarrow>
          (case fromietf_language e s subtag of
             (Inl err, s') \<Rightarrow> (Inl err, s')
           | (Inr language, s') \<Rightarrow> (fromietf_loop e language subtags, s')))"

subsection \<open>The tables and converters of the test suite\<close>

text \<open>
  \<^verbatim>\<open>TestConverter\<close> of \<^verbatim>\<open>tests.py\<close>: a reverse converter over two dictionaries.
  \<^verbatim>\<open>reverse\<close> returns the pair \<^verbatim>\<open>(alpha3, None)\<close>, so the constructor receives no
  country and no script.
\<close>

definition TestConverter_convert ::
  "(unicode \<rightharpoonup> unicode) \<Rightarrow> unicode \<Rightarrow> unicode option \<Rightarrow> unicode option \<Rightarrow> error + unicode" where
  "TestConverter_convert to_test a3 co sc =
     (case to_test a3 of
        None \<Rightarrow> Inl (LanguageConvertError a3 co sc)
      | Some t \<Rightarrow> Inr t)"

definition TestConverter_reverse ::
  "(unicode \<rightharpoonup> unicode) \<Rightarrow> unicode \<Rightarrow> error + unicode \<times> unicode option \<times> unicode option" where
  "TestConverter_reverse from_test t =
     (case from_test t of
        None \<Rightarrow> Inl (LanguageReverseError t)
      | Some a3 \<Rightarrow> Inr (a3, None, None))"

definition TestConverter :: "(unicode \<rightharpoonup> unicode) \<Rightarrow> (unicode \<rightharpoonup> unicode) \<Rightarrow> converter" where
  "TestConverter to_test from_test =
     \<lparr>convert = TestConverter_convert to_test,
      reverse = Some (TestConverter_reverse from_test)\<rparr>"

text \<open>
  Modelled from the spec: the data files and \<^verbatim>\<open>converters/alpha2.py\<close> are not among
  the sources. The tables below hold the rows that the test suite pins: the language,
  country and script codes it constructs, and the alpha2 codes it expects for them. The
  alpha2 converter maps a canonical triple to the alpha2 code of its language, with a
  convert failure that carries the inputs, and a code back to the triple, with a reverse
  failure that carries the code: the shape of \<^verbatim>\<open>TestConverter\<close>.
\<close>

definition tests_to_alpha2 :: "unicode \<rightharpoonup> unicode" where
  "tests_to_alpha2 =
     [uni ''eng'' \<mapsto> uni ''en'', uni ''fra'' \<mapsto> uni ''fr'',
      uni ''por'' \<mapsto> uni ''pt'', uni ''srp'' \<mapsto> uni ''sr'',
      uni ''bel'' \<mapsto> uni ''be'']"

definition tests_from_alpha2 :: "unicode \<rightharpoonup> unicode" where
  "tests_from_alpha2 =
     [uni ''en'' \<mapsto> uni ''eng'', uni ''fr'' \<mapsto> uni ''fra'',
      uni ''pt'' \<mapsto> uni ''por'', uni ''sr'' \<mapsto> uni ''srp'',
      uni ''be'' \<mapsto> uni ''bel'']"

definition tests_alpha2 :: converter where
  "tests_alpha2 = TestConverter tests_to_alpha2 tests_from_alpha2"

definition tests_env :: env where
  "tests_env =
     \<lparr>LANGUAGES = {uni ''eng'', uni ''fra'', uni ''por'', uni ''srp'', uni ''bel'', uni ''ace'', uni ''aaa'', uni ''und''},
      COUNTRIES = {uni ''FR'', uni ''US'', uni ''GB'', uni ''BR'', uni ''SR'', uni ''ME''},
      SCRIPTS = {uni ''Latn'', uni ''Cyrl'', uni ''Hira''},
      entry_points = [(uni ''alpha2'', tests_alpha2)]\<rparr>"

text \<open>The state after \<^verbatim>\<open>load_language_converters()\<close>, which the package runs on import.\<close>

definition tests_state :: state where
  "tests_state =
     \<lparr>LANGUAGE_CONVERTERS = [uni ''alpha2'' \<mapsto> tests_alpha2],
      Language_attrs = [uni ''fromcode'' \<mapsto> Classmethod, uni ''fromietf'' \<mapsto> Classmethod,
                        uni ''fromalpha2'' \<mapsto> Partial_fromcode (uni ''alpha2'')]\<rparr>"

text \<open>The converter that \<^verbatim>\<open>test_register_converter\<close> registers.\<close>

definition tests_TestConverter :: converter where
  "tests_TestConverter =
     TestConverter [uni ''fra'' \<mapsto> uni ''test1'', uni ''eng'' \<mapsto> uni ''test2'']
       [uni ''test1'' \<mapsto> uni ''fra'', uni ''test2'' \<mapsto> uni ''eng'']"


subsection \<open>Shapes of the ISO codes\<close>

text \<open>
  What the data files hold: an alpha2 language code is two lower-case letters, a country
  code two upper-case letters, a script code four letters of which the first alone is
  upper case.
\<close>

definition iso_alpha2_code :: "unicode \<Rightarrow> bool" where
  "iso_alpha2_code a = (length a = 2 \<and> list_all is_lower_letter a)"

definition iso_country_code :: "unicode \<Rightarrow> bool" where
  "iso_country_code c = (length c = 2 \<and> list_all is_upper_letter c)"

definition iso_script_code :: "unicode \<Rightarrow> bool" where
  "iso_script_code c =
     (case c of
        [] \<Rightarrow> False
      | x # xs \<Rightarrow> is_upper_letter x \<and> length xs = 3 \<and> list_all is_lower_letter xs)"

text \<open>A Language whose three codes are keys of their tables.\<close>

definition valid_Language :: "env \<Rightarrow> Language \<Rightarrow> bool" where
  "valid_Language e L =
     (alpha3 L \<in> LANGUAGES e
      \<and> (case country L of None \<Rightarrow> True | Some c \<Rightarrow> alpha2 c \<in> COUNTRIES e)
      \<and> (case script L of None \<Rightarrow> True | Some x \<Rightarrow> code x \<in> SCRIPTS e))"


subsection \<open>Runs of the registry\<close>

datatype operation =
    Register unicode converter
  | Unregister unicode
  | Get unicode

fun step :: "env \<Rightarrow> state \<Rightarrow> operation \<Rightarrow> state" where
  "step e s (Register name conv) = snd (register_language_converter s name conv)"
| "step e s (Unregister name) = snd (unregister_language_converter s name)"
| "step e s (Get name) = snd (get_language_converter e s name)"

definition run :: "env \<Rightarrow> state \<Rightarrow> operation list \<Rightarrow> state" where
  "run e s ops = foldl (step e) s ops"

text \<open>
  The constructor \<^verbatim>\<open>from<name>\<close> is installed on the class exactly for the names that
  the registry binds to a reverse converter.
\<close>

definition constructors_match_registry :: "state \<Rightarrow> bool" where
  "constructors_match_registry s =
     (\<forall>name. (Language_attrs s (uni ''from'' @ name) = Some (Partial_fromcode name))
              = (\<exists>conv. LANGUAGE_CONVERTERS s name = Some conv \<and> reverse conv \<noteq> None))"

text \<open>
  The code that the constructor validates: the fallback when one is given and the
  requested code is not a key of the table, the requested code otherwise.
\<close>

definition effective_code :: "env \<Rightarrow> unicode \<Rightarrow> unicode option \<Rightarrow> unicode" where
  "effective_code e language unknown =
     (case unknown of
        None \<Rightarrow> language
      | Some f \<Rightarrow> if language \<notin> LANGUAGES e then f else language)"

section \<open>Auxiliary facts\<close>

subsection \<open>Strings\<close>

lemma str_split_not_Nil: "str_split sep s \<noteq> []"
  by (induction s) (auto split: list.splits)

lemma str_split_no_sep: "sep \<notin> set a \<Longrightarrow> str_split sep a = [a]"
  by (induction a) auto

lemma str_split_append:
  "sep \<notin> set a \<Longrightarrow> str_split sep (a @ sep # r) = a # str_split sep r"
  by (induction a) (auto split: list.splits simp: str_split_not_Nil)

lemma uni_inject [simp]: "uni a = uni b \<longleftrightarrow> a = b"
  unfolding uni_def by (simp add: inj_map_eq_map inj_def)

lemma length_uni [simp]: "length (uni a) = length a"
  by (simp add: uni_def)

lemma uni_append [simp]:
  "uni a @ uni b = uni (a @ b)"
  "uni a @ uni b @ r = uni (a @ b) @ r"
  by (simp_all add: uni_def)

lemma uni_hyphen: "uni ''-'' = [hyphen]"
  by (simp add: uni_def hyphen_def)

lemma from_code_name [simp]:
  "uni ''from'' @ name = uni ''fromcode'' \<longleftrightarrow> name = uni ''code''"
  "uni ''fromcode'' = uni ''from'' @ name \<longleftrightarrow> name = uni ''code''"
  by (auto simp: uni_def)


lemma upper_char_fixed: "is_upper_letter c \<Longrightarrow> upper_char c = c"
  by (simp add: upper_char_def is_upper_letter_def is_lower_letter_def)

lemma lower_char_fixed: "is_lower_letter c \<Longrightarrow> lower_char c = c"
  by (simp add: lower_char_def is_upper_letter_def is_lower_letter_def KELVIN_SIGN_def)

lemma upper_letter_not_hyphen: "is_upper_letter c \<Longrightarrow> c \<noteq> hyphen"
  by (auto simp add: is_upper_letter_def hyphen_def)

lemma lower_letter_not_hyphen: "is_lower_letter c \<Longrightarrow> c \<noteq> hyphen"
  by (auto simp add: is_lower_letter_def hyphen_def)

subsection \<open>Registry lookups\<close>

lemma get_language_converter_bound:
  "LANGUAGE_CONVERTERS s name = Some conv \<Longrightarrow> get_language_converter e s name = (Inr conv, s)"
  by (simp add: get_language_converter_def)

lemma find_None_entry:
  "name \<notin> fst ` set eps \<Longrightarrow> find (\<lambda>ep. fst ep = name) eps = None"
  by (induction eps) auto

lemma get_language_converter_unknown:
  "LANGUAGE_CONVERTERS s name = None \<Longrightarrow> name \<notin> fst ` set (entry_points e)
     \<Longrightarrow> get_language_converter e s name = (Inl (KeyError name), s)"
  by (simp add: get_language_converter_def find_None_entry)

lemma register_binds:
  "register_language_converter s name conv = (Inr u, s') \<Longrightarrow>
   LANGUAGE_CONVERTERS s' name = Some conv"
  by (auto simp: register_language_converter_def Let_def split: if_splits option.splits)

lemma get_language_converter_discovered:
  assumes "LANGUAGE_CONVERTERS s name = None"
    and "find (\<lambda>ep. fst ep = name) (entry_points e) = Some ep"
    and "register_language_converter s name (snd ep) = (Inr u, s')"
  shows "get_language_converter e s name = (Inr (snd ep), s')"
  using assms register_binds [OF assms(3)]
  by (simp add: get_language_converter_def)

subsection \<open>The subtag loop\<close>

lemma Country_init_valid: "c \<in> COUNTRIES e \<Longrightarrow> Country_init e c = Inr (Country c)"
  by (simp add: Country_init_def)

lemma Script_init_valid: "c \<in> SCRIPTS e \<Longrightarrow> Script_init e c = Inr (Script c)"
  by (simp add: Script_init_def)


text \<open>A run of valid country subtags leaves the last one in the Language.\<close>

lemma fromietf_loop_countries:
  "script l = None \<Longrightarrow> \<forall>c\<in>set cs. length c = 2 \<and> str_upper c \<in> COUNTRIES e \<Longrightarrow>
   fromietf_loop e l cs
     = Inr (if cs = [] then l else l\<lparr>country := Some (Country (str_upper (last cs)))\<rparr>)"
proof (induction cs arbitrary: l)
  case Nil
  then show ?case by simp
next
  case (Cons c cs)
  let ?l = "l\<lparr>country := Some (Country (str_upper c))\<rparr>"
  have s: "script ?l = None" using Cons.prems(1) by simp
  have r: "\<forall>c\<in>set cs. length c = 2 \<and> str_upper c \<in> COUNTRIES e" using Cons.prems(2) by simp
  have "fromietf_loop e l (c # cs) = fromietf_loop e ?l cs"
    using Cons.prems by (simp add: Country_init_valid)
  also have "\<dots> = Inr (if cs = [] then ?l
                         else ?l\<lparr>country := Some (Country (str_upper (last cs)))\<rparr>)"
    by (rule Cons.IH [OF s r])
  finally show ?case by simp
qed

text \<open>Once a script subtag has been stored, a non-empty remainder is rejected.\<close>

lemma fromietf_loop_after_script:
  "script l = None \<or> cs = [] \<Longrightarrow> \<forall>c\<in>set cs. length c = 2 \<and> str_upper c \<in> COUNTRIES e \<Longrightarrow>
   length sc \<noteq> 2 \<Longrightarrow> str_capitalize sc \<in> SCRIPTS e \<Longrightarrow> rest \<noteq> [] \<Longrightarrow>
   fromietf_loop e l (cs @ sc # rest) = Inl (ValueError_unmatched_subtags rest)"
proof (induction cs arbitrary: l)
  case Nil
  then show ?case by (simp add: Script_init_valid)
next
  case (Cons c cs)
  let ?l = "l\<lparr>country := Some (Country (str_upper c))\<rparr>"
  have n: "script l = None" using Cons.prems(1) by simp
  have s: "script ?l = None \<or> cs = []" using n by simp
  have r: "\<forall>c\<in>set cs. length c = 2 \<and> str_upper c \<in> COUNTRIES e" using Cons.prems(2) by simp
  have "fromietf_loop e l ((c # cs) @ sc # rest) = fromietf_loop e ?l (cs @ sc # rest)"
    using Cons.prems(2) n by (simp add: Country_init_valid)
  also have "\<dots> = Inl (ValueError_unmatched_subtags rest)"
    by (rule Cons.IH [OF s r Cons.prems(3,4,5)])
  finally show ?case .
qed

text \<open>When the loop returns a Language, every subtag but the last had two characters.\<close>

lemma fromietf_loop_accepts:
  "fromietf_loop e l subtags = Inr L \<Longrightarrow> \<forall>x\<in>set (butlast subtags). length x = 2"
proof (induction subtags arbitrary: l)
  case Nil
  then show ?case by simp
next
  case (Cons x xs)
  show ?case
  proof (cases "xs = []")
    case True
    then show ?thesis by simp
  next
    case False
    with Cons.prems obtain l' where "length x = 2" and "fromietf_loop e l' xs = Inr L"
      by (auto simp: Country_init_def Script_init_def split: if_splits sum.splits)
    with Cons.IH False show ?thesis by simp
  qed
qed

subsection \<open>Letter case\<close>










subsection \<open>ISO code shapes\<close>

lemma iso_country_codeD:
  assumes "iso_country_code c"
  shows "length c = 2" and "str_upper c = c" and "hyphen \<notin> set c"
proof -
  from assms have l: "length c = 2" and u: "\<forall>x\<in>set c. is_upper_letter x"
    by (simp_all add: iso_country_code_def list_all_iff)
  show "length c = 2" by (rule l)
  show "str_upper c = c"
    unfolding str_upper_def using u by (simp add: map_idI upper_char_fixed)
  show "hyphen \<notin> set c"
    using u upper_letter_not_hyphen by blast
qed

lemma iso_alpha2_codeD:
  assumes "iso_alpha2_code a"
  shows "length a = 2" and "str_lower a = a" and "hyphen \<notin> set a"
proof -
  from assms have l: "length a = 2" and u: "\<forall>x\<in>set a. is_lower_letter x"
    by (simp_all add: iso_alpha2_code_def list_all_iff)
  show "length a = 2" by (rule l)
  show "str_lower a = a"
    unfolding str_lower_def using u by (simp add: map_idI lower_char_fixed)
  show "hyphen \<notin> set a"
    using u lower_letter_not_hyphen by blast
qed

lemma iso_script_codeD:
  assumes "iso_script_code c"
  shows "length c \<noteq> 2" and "str_capitalize c = c" and "hyphen \<notin> set c"
proof -
  from assms obtain x xs where c: "c = x # xs" and x: "is_upper_letter x"
    and l: "length xs = 3" and u: "\<forall>y\<in>set xs. is_lower_letter y"
    by (auto simp: iso_script_code_def list_all_iff split: list.splits)
  show "length c \<noteq> 2" using c l by simp
  show "str_capitalize c = c"
    using c x u by (simp add: upper_char_fixed map_idI lower_char_fixed)
  show "hyphen \<notin> set c"
    using c x u upper_letter_not_hyphen lower_letter_not_hyphen by auto
qed

lemma Language_getattr_bound:
  "LANGUAGE_CONVERTERS s name = Some conv \<Longrightarrow>
   convert conv (alpha3 L) (map_option alpha2 (country L)) (map_option code (script L)) = Inr v \<Longrightarrow>
   Language_getattr e s L name = (Inr v, s)"
  by (cases "country L"; cases "script L")
     (simp_all add: Language_getattr_def get_language_converter_bound)

subsection \<open>The test-suite tables, evaluated\<close>

lemma tests_state_loaded:
  "load_language_converters tests_env initial_state = (Inr (), tests_state)"
  by (simp add: load_language_converters_def tests_env_def initial_state_def tests_state_def
        register_language_converter_def tests_alpha2_def TestConverter_def)

lemma tests_state_alpha2: "LANGUAGE_CONVERTERS tests_state (uni ''alpha2'') = Some tests_alpha2"
  by (simp add: tests_state_def)

lemma tests_state_fromalpha2:
  "Language_attrs tests_state (uni ''fromalpha2'') = Some (Partial_fromcode (uni ''alpha2''))"
  by (simp add: tests_state_def)

lemma tests_alpha2_reverse:
  "reverse tests_alpha2 = Some (TestConverter_reverse tests_from_alpha2)"
  by (simp add: tests_alpha2_def TestConverter_def)

lemma tests_alpha2_convert: "convert tests_alpha2 = TestConverter_convert tests_to_alpha2"
  by (simp add: tests_alpha2_def TestConverter_def)

lemma tests_split:
  "str_split hyphen (uni ''fr-Latn'') = [uni ''fr'', uni ''Latn'']"
  "str_split hyphen (uni ''fra-FR-Latn'') = [uni ''fra'', uni ''FR'', uni ''Latn'']"
  "str_split hyphen (uni ''xyz-FR'') = [uni ''xyz'', uni ''FR'']"
  "str_split hyphen (uni ''fra-FR-US'') = [uni ''fra'', uni ''FR'', uni ''US'']"
  "str_split hyphen (uni ''fra-Latn-FR'') = [uni ''fra'', uni ''Latn'', uni ''FR'']"
  "str_split hyphen (uni ''pt-BR'') = [uni ''pt'', uni ''BR'']"
  by (simp_all add: uni_def hyphen_def)

lemma tests_case:
  "str_lower (uni ''fra'') = uni ''fra''" "str_lower (uni ''fr'') = uni ''fr''" "str_lower (uni ''FR'') = uni ''fr''"
  "str_lower (uni ''xyz'') = uni ''xyz''"
  "str_upper (uni ''FR'') = uni ''FR''" "str_upper (uni ''US'') = uni ''US''" "str_upper (uni ''BR'') = uni ''BR''"
  "str_capitalize (uni ''Latn'') = uni ''Latn''"
  by code_simp+

lemma tests_language_fra:
  "fromietf_language tests_env tests_state (uni ''fra'')
     = (Inr \<lparr>alpha3 = uni ''fra'', country = None, script = None\<rparr>, tests_state)"
  by (simp add: fromietf_language_def tests_case Language_init_def tests_env_def)

lemma tests_tables:
  "str_capitalize (uni ''Latn'') \<in> SCRIPTS tests_env"
  "str_upper (uni ''FR'') \<in> COUNTRIES tests_env"
  "str_upper (uni ''US'') \<in> COUNTRIES tests_env"
  unfolding tests_case by (simp_all add: tests_env_def)

lemma tests_getattr:
  "Language_getattr tests_env tests_state \<lparr>alpha3 = uni ''eng'', country = Some (Country (uni ''US'')), script = Some (Script (uni ''Latn''))\<rparr>
      (uni ''alpha2'') = (Inr (uni ''en''), tests_state)"
  "Language_getattr tests_env tests_state \<lparr>alpha3 = uni ''ace'', country = None, script = None\<rparr>
      (uni ''alpha2'') = (Inl (LanguageConvertError (uni ''ace'') None None), tests_state)"
  by (simp_all add: Language_getattr_def get_language_converter_bound [OF tests_state_alpha2]
        tests_alpha2_convert TestConverter_convert_def tests_to_alpha2_def)

lemma length_str_lower: "length (str_lower s) = length s"
  by (simp add: str_lower_def)

lemma fromietf_language_alpha2:
  assumes "length subtag = 2"
    and "Language_attrs s (uni ''fromalpha2'') = Some (Partial_fromcode (uni ''alpha2''))"
    and "LANGUAGE_CONVERTERS s (uni ''alpha2'') = Some conv"
    and "reverse conv = Some r"
  shows "fromietf_language e s subtag =
           (case r (str_lower subtag) of
              Inl err \<Rightarrow> (Inl err, s)
            | Inr (a3, co, sc) \<Rightarrow>
                (Language_init e a3 (map_option Country_code co) (map_option Script_code sc) None,
                 s))"
  using assms
  by (simp add: fromietf_language_def call_fromalpha2_def fromcode_def length_str_lower
        get_language_converter_bound split: sum.splits prod.splits)



lemma tests_loop_FR_Latn:
  "fromietf_loop tests_env \<lparr>alpha3 = uni ''fra'', country = None, script = None\<rparr> [uni ''FR'', uni ''Latn'']
     = Inr \<lparr>alpha3 = uni ''fra'', country = Some (Country (uni ''FR'')), script = Some (Script (uni ''Latn''))\<rparr>"
  using tests_tables
  by (simp add: Script_init_valid Country_init_valid tests_case del: str_capitalize.simps)

lemma tests_tables_iso:
  "\<forall>c\<in>COUNTRIES tests_env. iso_country_code c"
  "\<forall>c\<in>SCRIPTS tests_env. iso_script_code c"
  by (simp_all add: tests_env_def iso_country_code_def iso_script_code_def
        is_upper_letter_def is_lower_letter_def uni_def)

subsection \<open>Registry runs\<close>

text \<open>
  Registration, removal and lookup keep the constructors in step with the registry as long
  as the class still has its \<^verbatim>\<open>fromcode\<close> attribute; only the removal of a converter
  named \<^verbatim>\<open>code\<close> deletes that attribute.
\<close>

lemma register_preserves:
  assumes "constructors_match_registry s" and "Language_attrs s (uni ''fromcode'') \<noteq> None"
  shows "constructors_match_registry (snd (register_language_converter s name conv))
         \<and> Language_attrs (snd (register_language_converter s name conv)) (uni ''fromcode'') \<noteq> None"
proof (cases "name \<in> dom (LANGUAGE_CONVERTERS s)")
  case True
  then show ?thesis using assms by (simp add: register_language_converter_def)
next
  case False
  then have nb: "LANGUAGE_CONVERTERS s name = None" by auto
  then have na: "Language_attrs s (uni ''from'' @ name) \<noteq> Some (Partial_fromcode name)"
    using assms(1) by (simp add: constructors_match_registry_def)
  show ?thesis
  proof (cases "reverse conv")
    case None
    then show ?thesis
      using assms False na
      by (auto simp: register_language_converter_def constructors_match_registry_def Let_def)
  next
    case (Some r)
    then show ?thesis
      using assms False
      by (auto simp: register_language_converter_def constructors_match_registry_def Let_def)
  qed
qed

lemma unregister_preserves:
  assumes "constructors_match_registry s" and "Language_attrs s (uni ''fromcode'') \<noteq> None"
    and "name \<noteq> (uni ''code'')"
  shows "constructors_match_registry (snd (unregister_language_converter s name))
         \<and> Language_attrs (snd (unregister_language_converter s name)) (uni ''fromcode'') \<noteq> None"
proof (cases "LANGUAGE_CONVERTERS s name")
  case None
  then show ?thesis using assms by (simp add: unregister_language_converter_def)
next
  case (Some conv)
  show ?thesis
  proof (cases "reverse conv")
    case None
    then have "Language_attrs s (uni ''from'' @ name) \<noteq> Some (Partial_fromcode name)"
      using assms(1) Some by (simp add: constructors_match_registry_def)
    then show ?thesis
      using assms Some None
      by (auto simp: unregister_language_converter_def constructors_match_registry_def)
  next
    case (Some r)
    then have "Language_attrs s (uni ''from'' @ name) = Some (Partial_fromcode name)"
      using assms(1) \<open>LANGUAGE_CONVERTERS s name = Some conv\<close>
      by (simp add: constructors_match_registry_def)
    then have st: "snd (unregister_language_converter s name)
                 = s\<lparr>Language_attrs := (Language_attrs s)(uni ''from'' @ name := None),
                     LANGUAGE_CONVERTERS := (LANGUAGE_CONVERTERS s)(name := None)\<rparr>"
      using Some \<open>LANGUAGE_CONVERTERS s name = Some conv\<close>
      by (simp add: unregister_language_converter_def)
    show ?thesis
      unfolding st using assms
      by (auto simp: constructors_match_registry_def)
  qed
qed

lemma get_preserves:
  assumes "constructors_match_registry s" and "Language_attrs s (uni ''fromcode'') \<noteq> None"
  shows "constructors_match_registry (snd (get_language_converter e s name))
         \<and> Language_attrs (snd (get_language_converter e s name)) (uni ''fromcode'') \<noteq> None"
proof (cases "LANGUAGE_CONVERTERS s name")
  case (Some conv)
  then show ?thesis using assms by (simp add: get_language_converter_def)
next
  case None
  show ?thesis
  proof (cases "find (\<lambda>ep. fst ep = name) (entry_points e)")
    case None
    then show ?thesis
      using assms \<open>LANGUAGE_CONVERTERS s name = None\<close> by (simp add: get_language_converter_def)
  next
    case (Some ep)
    have "snd (get_language_converter e s name) = snd (register_language_converter s name (snd ep))"
      using Some \<open>LANGUAGE_CONVERTERS s name = None\<close>
      by (simp add: get_language_converter_def split: prod.splits sum.splits option.splits)
    then show ?thesis using register_preserves [OF assms] by simp
  qed
qed

lemma run_preserves:
  assumes "Unregister (uni ''code'') \<notin> set ops"
    and "constructors_match_registry s" and "Language_attrs s (uni ''fromcode'') \<noteq> None"
  shows "constructors_match_registry (run e s ops)"
  using assms
proof (induction ops arbitrary: s)
  case Nil
  then show ?case by (simp add: run_def)
next
  case (Cons a ops)
  have "constructors_match_registry (step e s a) \<and> Language_attrs (step e s a) (uni ''fromcode'') \<noteq> None"
  proof (cases a)
    case (Register name conv)
    then show ?thesis using register_preserves [OF Cons.prems(2,3)] by simp
  next
    case (Unregister name)
    then have "name \<noteq> (uni ''code'')" using Cons.prems(1) by auto
    then show ?thesis using Unregister unregister_preserves [OF Cons.prems(2,3)] by simp
  next
    case (Get name)
    then show ?thesis using get_preserves [OF Cons.prems(2,3)] by simp
  qed
  moreover have "Unregister (uni ''code'') \<notin> set ops" using Cons.prems(1) by simp
  ultimately have "constructors_match_registry (run e (step e s a) ops)"
    using Cons.IH by blast
  then show ?case by (simp add: run_def)
qed

lemma initial_state_ok:
  "constructors_match_registry initial_state" "Language_attrs initial_state (uni ''fromcode'') \<noteq> None"
  by (simp_all add: constructors_match_registry_def initial_state_def)

lemma constructors_match_registry_run:
  "Unregister (uni ''code'') \<notin> set ops \<Longrightarrow> constructors_match_registry (run e initial_state ops)"
  using run_preserves initial_state_ok by blast

section \<open>Construction with a fallback\<close>

text \<open>
  C6. For every code \<open>c\<close> that is not a language key and every valid fallback \<open>f\<close>,
  \<^verbatim>\<open>Language(c, unknown=f)\<close> equals \<^verbatim>\<open>Language(f)\<close>; and construction fails with
  the invalid-language error exactly when the code after fallback substitution (the code
  itself when no fallback is given) is not a key of the language table.
\<close>

theorem Language_init_fallback:
  "(c \<notin> LANGUAGES e \<and> f \<in> LANGUAGES e \<longrightarrow>
      Language_init e c co sc (Some f) = Language_init e f co sc None
      \<and> Language_init e c None None (Some f)
          = Inr \<lparr>alpha3 = f, country = None, script = None\<rparr>)
   \<and> ((\<exists>x. Language_init e c co sc u = Inl (ValueError_not_a_valid_language x))
        \<longleftrightarrow> effective_code e c u \<notin> LANGUAGES e)
   \<and> (effective_code e c u \<notin> LANGUAGES e \<longrightarrow>
        Language_init e c co sc u
          = Inl (ValueError_not_a_valid_language (effective_code e c u)))"
  by (cases u; cases co; cases sc)
     (auto simp: Language_init_def effective_code_def Country_init_def Script_init_def Let_def
           split: country_arg.splits script_arg.splits sum.splits)

theorem Language_init_fallback_witness:
  "(uni ''zzzz'') \<notin> LANGUAGES tests_env \<and> (uni ''und'') \<in> LANGUAGES tests_env
   \<and> Language_init tests_env (uni ''zzzz'') None None (Some (uni ''und''))
       = Language_init tests_env (uni ''und'') None None None
   \<and> Language_init tests_env (uni ''zzzz'') None None (Some (uni ''und''))
       = Inr \<lparr>alpha3 = uni ''und'', country = None, script = None\<rparr>
   \<and> effective_code tests_env (uni ''zzz'') None \<notin> LANGUAGES tests_env
   \<and> Language_init tests_env (uni ''zzz'') None None None
       = Inl (ValueError_not_a_valid_language (uni ''zzz''))"
proof -
  have a: "(uni ''zzzz'') \<notin> LANGUAGES tests_env" and b: "(uni ''und'') \<in> LANGUAGES tests_env"
    and c: "effective_code tests_env (uni ''zzz'') None \<notin> LANGUAGES tests_env"
    and d: "effective_code tests_env (uni ''zzz'') None = uni ''zzz''"
    by (simp_all add: tests_env_def effective_code_def)
  have 1: "Language_init tests_env (uni ''zzzz'') None None (Some (uni ''und''))
             = Language_init tests_env (uni ''und'') None None None
           \<and> Language_init tests_env (uni ''zzzz'') None None (Some (uni ''und''))
             = Inr \<lparr>alpha3 = uni ''und'', country = None, script = None\<rparr>"
    using a b Language_init_fallback [of "uni ''zzzz''" tests_env "uni ''und''" None None "Some (uni ''und'')"]
    by blast
  have 2: "Language_init tests_env (uni ''zzz'') None None None
             = Inl (ValueError_not_a_valid_language (uni ''zzz''))"
    using c d Language_init_fallback [of "uni ''zzz''" tests_env "uni ''und''" None None None]
    by metis
  show ?thesis using a b c 1 2 by blast
qed

section \<open>Named conversions\<close>

text \<open>
  C9. Attribute-style conversion delegates to the registry's converter. For a name that
  the registry binds, \<^verbatim>\<open>Language.__getattr__\<close> returns what \<^verbatim>\<open>convert(alpha3, country
  code or None, script code or None)\<close> returns, a convert failure included, and leaves the
  registry as it is; for a name that an entry point advertises it does the same with the
  converter registered on the way. (A \<^verbatim>\<open>KeyError\<close> from \<^verbatim>\<open>convert\<close> is the one result
  that the \<^verbatim>\<open>except\<close> clause rewrites.) For a name that is neither bound nor advertised,
  it fails with \<^verbatim>\<open>AttributeError(name)\<close>, which is not a convert failure. Python calls
  \<^verbatim>\<open>__getattr__\<close> for the names that are not attributes of the instance or the class.
\<close>

theorem Language_getattr_delegates:
  "(LANGUAGE_CONVERTERS s name = Some conv \<longrightarrow>
      (let r = convert conv (alpha3 L) (map_option alpha2 (country L))
                 (map_option code (script L))
       in (\<forall>k. r \<noteq> Inl (KeyError k)) \<longrightarrow> Language_getattr e s L name = (r, s)))
   \<and> (LANGUAGE_CONVERTERS s name = None
        \<and> find (\<lambda>ep. fst ep = name) (entry_points e) = Some ep
        \<and> register_language_converter s name (snd ep) = (Inr u, s') \<longrightarrow>
      (let r = convert (snd ep) (alpha3 L) (map_option alpha2 (country L))
                 (map_option code (script L))
       in (\<forall>k. r \<noteq> Inl (KeyError k)) \<longrightarrow> Language_getattr e s L name = (r, s')))
   \<and> (LANGUAGE_CONVERTERS s name = None \<and> name \<notin> fst ` set (entry_points e) \<longrightarrow>
        Language_getattr e s L name = (Inl (AttributeError name), s))"
proof -
  have co: "(case country L of Some c \<Rightarrow> Some (alpha2 c) | None \<Rightarrow> None)
              = map_option alpha2 (country L)"
    by (simp split: option.splits)
  have sc: "(case script L of Some x \<Rightarrow> Some (code x) | None \<Rightarrow> None)
              = map_option code (script L)"
    by (simp split: option.splits)
  have via: "Language_getattr e s L name
               = (convert c (alpha3 L) (map_option alpha2 (country L))
                    (map_option code (script L)), t)"
    if "get_language_converter e s name = (Inr c, t)"
      and "\<forall>k. convert c (alpha3 L) (map_option alpha2 (country L))
                 (map_option code (script L)) \<noteq> Inl (KeyError k)"
    for c t
    using that
    by (simp add: Language_getattr_def Let_def co sc split: sum.splits error.splits)
  show ?thesis
  proof (intro conjI impI)
    assume "LANGUAGE_CONVERTERS s name = Some conv"
    then have "get_language_converter e s name = (Inr conv, s)"
      by (rule get_language_converter_bound)
    then show "let r = convert conv (alpha3 L) (map_option alpha2 (country L))
                 (map_option code (script L))
       in (\<forall>k. r \<noteq> Inl (KeyError k)) \<longrightarrow> Language_getattr e s L name = (r, s)"
      unfolding Let_def using via by blast
  next
    assume "LANGUAGE_CONVERTERS s name = None
        \<and> find (\<lambda>ep. fst ep = name) (entry_points e) = Some ep
        \<and> register_language_converter s name (snd ep) = (Inr u, s')"
    then have "get_language_converter e s name = (Inr (snd ep), s')"
      using get_language_converter_discovered by blast
    then show "let r = convert (snd ep) (alpha3 L) (map_option alpha2 (country L))
                 (map_option code (script L))
       in (\<forall>k. r \<noteq> Inl (KeyError k)) \<longrightarrow> Language_getattr e s L name = (r, s')"
      unfolding Let_def using via by blast
  next
    assume "LANGUAGE_CONVERTERS s name = None \<and> name \<notin> fst ` set (entry_points e)"
    then show "Language_getattr e s L name = (Inl (AttributeError name), s)"
      by (simp add: Language_getattr_def Let_def get_language_converter_unknown)
  qed
qed

theorem Language_getattr_delegates_witness:
  "Language_getattr tests_env tests_state \<lparr>alpha3 = uni ''eng'', country = None, script = None\<rparr>
      (uni ''alpha2'') = (Inr (uni ''en''), tests_state)
   \<and> Language_getattr tests_env tests_state \<lparr>alpha3 = uni ''aaa'', country = None, script = None\<rparr>
      (uni ''alpha2'') = (Inl (LanguageConvertError (uni ''aaa'') None None), tests_state)
   \<and> Language_getattr tests_env initial_state \<lparr>alpha3 = uni ''eng'', country = None, script = None\<rparr>
      (uni ''alpha2'') = (Inr (uni ''en''), tests_state)
   \<and> Language_getattr tests_env tests_state \<lparr>alpha3 = uni ''fra'', country = None, script = None\<rparr>
      (uni ''test'') = (Inl (AttributeError (uni ''test'')), tests_state)"
proof -
  have a: "convert tests_alpha2 (uni ''eng'') None None = Inr (uni ''en'')"
    and b: "convert tests_alpha2 (uni ''aaa'') None None = Inl (LanguageConvertError (uni ''aaa'') None None)"
    by (simp_all add: tests_alpha2_convert TestConverter_convert_def tests_to_alpha2_def)
  have c: "LANGUAGE_CONVERTERS tests_state (uni ''test'') = None
           \<and> (uni ''test'') \<notin> fst ` set (entry_points tests_env)"
    by (simp add: tests_state_def tests_env_def)
  have d: "LANGUAGE_CONVERTERS initial_state (uni ''alpha2'') = None
           \<and> find (\<lambda>ep. fst ep = (uni ''alpha2'')) (entry_points tests_env)
               = Some (uni ''alpha2'', tests_alpha2)
           \<and> register_language_converter initial_state (uni ''alpha2'')
               (snd (uni ''alpha2'', tests_alpha2)) = (Inr (), tests_state)"
    using tests_state_loaded
    by (simp add: initial_state_def tests_env_def load_language_converters_def
          split: prod.splits sum.splits)
  have 1: "Language_getattr tests_env tests_state
             \<lparr>alpha3 = uni ''eng'', country = None, script = None\<rparr> (uni ''alpha2'')
           = (Inr (uni ''en''), tests_state)"
    using a tests_state_alpha2
      Language_getattr_delegates [of tests_state "uni ''alpha2''" tests_alpha2
         "\<lparr>alpha3 = uni ''eng'', country = None, script = None\<rparr>" tests_env]
    by (simp add: Let_def)
  have 2: "Language_getattr tests_env tests_state
             \<lparr>alpha3 = uni ''aaa'', country = None, script = None\<rparr> (uni ''alpha2'')
           = (Inl (LanguageConvertError (uni ''aaa'') None None), tests_state)"
    using b tests_state_alpha2
      Language_getattr_delegates [of tests_state "uni ''alpha2''" tests_alpha2
         "\<lparr>alpha3 = uni ''aaa'', country = None, script = None\<rparr>" tests_env]
    by (simp add: Let_def)
  have 3: "Language_getattr tests_env initial_state
             \<lparr>alpha3 = uni ''eng'', country = None, script = None\<rparr> (uni ''alpha2'')
           = (Inr (uni ''en''), tests_state)"
    using a d
      Language_getattr_delegates [of initial_state "uni ''alpha2''" tests_alpha2
         "\<lparr>alpha3 = uni ''eng'', country = None, script = None\<rparr>" tests_env
         "(uni ''alpha2'', tests_alpha2)" "()" tests_state]
    by (simp add: Let_def)
  have 4: "Language_getattr tests_env tests_state
             \<lparr>alpha3 = uni ''fra'', country = None, script = None\<rparr> (uni ''test'')
           = (Inl (AttributeError (uni ''test'')), tests_state)"
    using c
      Language_getattr_delegates [of tests_state "uni ''test''" tests_alpha2
         "\<lparr>alpha3 = uni ''fra'', country = None, script = None\<rparr>" tests_env]
    by simp
  show ?thesis using 1 2 3 4 by blast
qed

section \<open>The textual form\<close>

text \<open>
  C3. \<^verbatim>\<open>str(L)\<close> starts with the result of the alpha2 conversion of \<open>L\<close> when that
  conversion succeeds and with the raw alpha3 code when it fails with
  \<^verbatim>\<open>LanguageConvertError\<close>; then comes a hyphen and the country code if a country is
  set, and after that a hyphen and the script code if a script is set.
\<close>

theorem Language_str_segments:
  "(Language_getattr e s L (uni ''alpha2'') = (Inr a2, s') \<longrightarrow>
      Language_str e s L =
        (Inr (a2 @ (case country L of None \<Rightarrow> [] | Some c \<Rightarrow> (uni ''-'') @ alpha2 c)
                 @ (case script L of None \<Rightarrow> [] | Some x \<Rightarrow> (uni ''-'') @ code x)), s'))
   \<and> (Language_getattr e s L (uni ''alpha2'') = (Inl (LanguageConvertError a c x), s') \<longrightarrow>
      Language_str e s L =
        (Inr (alpha3 L @ (case country L of None \<Rightarrow> [] | Some c \<Rightarrow> (uni ''-'') @ alpha2 c)
                 @ (case script L of None \<Rightarrow> [] | Some x \<Rightarrow> (uni ''-'') @ code x)), s'))"
  by (simp add: Language_str_def str_suffix_def Country_str_def Script_str_def Let_def
           split: option.splits)

theorem Language_str_segments_witness:
  "Language_str tests_env tests_state
     \<lparr>alpha3 = uni ''eng'', country = Some (Country (uni ''US'')), script = Some (Script (uni ''Latn''))\<rparr>
     = (Inr (uni ''en-US-Latn''), tests_state)
   \<and> Language_str tests_env tests_state \<lparr>alpha3 = uni ''ace'', country = None, script = None\<rparr>
     = (Inr (uni ''ace''), tests_state)"
  using tests_getattr
    Language_str_segments [of tests_env tests_state
      "\<lparr>alpha3 = uni ''eng'', country = Some (Country (uni ''US'')), script = Some (Script (uni ''Latn''))\<rparr>"
      "uni ''en''" tests_state]
    Language_str_segments [of tests_env tests_state
      "\<lparr>alpha3 = uni ''ace'', country = None, script = None\<rparr>" _ tests_state "uni ''ace''" None None]
  by simp

section \<open>Hashing\<close>

text \<open>
  C7. \<^verbatim>\<open>hash(L)\<close> is the hash of \<^verbatim>\<open>str(L)\<close>, whatever the string hash \<open>h\<close> is, and
  fails as \<^verbatim>\<open>str(L)\<close> fails; two Languages that render to the same string hash to
  the same value; and \<^verbatim>\<open>hash(Language('por', 'BR'))\<close> is \<^verbatim>\<open>hash('pt-BR')\<close>.
\<close>

theorem Language_hash_of_str:
  "(Language_str e s L = (Inr t, s') \<longrightarrow> Language_hash h e s L = (Inr (h t), s'))
   \<and> (Language_str e s L = (Inl err, s') \<longrightarrow> Language_hash h e s L = (Inl err, s'))
   \<and> (fst (Language_str e s L1) = fst (Language_str e s L2) \<longrightarrow>
        fst (Language_hash h e s L1) = fst (Language_hash h e s L2))
   \<and> Language_init tests_env (uni ''por'') (Some (Country_code (uni ''BR''))) None None
        = Inr \<lparr>alpha3 = uni ''por'', country = Some (Country (uni ''BR'')), script = None\<rparr>
   \<and> Language_hash h tests_env tests_state
        \<lparr>alpha3 = uni ''por'', country = Some (Country (uni ''BR'')), script = None\<rparr>
        = (Inr (h (uni ''pt-BR'')), tests_state)"
proof (intro conjI impI)
  show "Language_init tests_env (uni ''por'') (Some (Country_code (uni ''BR''))) None None
        = Inr \<lparr>alpha3 = uni ''por'', country = Some (Country (uni ''BR'')), script = None\<rparr>"
    by (simp add: Language_init_def Country_init_def tests_env_def)
next
  have "Language_getattr tests_env tests_state
          \<lparr>alpha3 = uni ''por'', country = Some (Country (uni ''BR'')), script = None\<rparr> (uni ''alpha2'')
          = (Inr (uni ''pt''), tests_state)"
    by (simp add: Language_getattr_def get_language_converter_bound [OF tests_state_alpha2]
          tests_alpha2_convert TestConverter_convert_def tests_to_alpha2_def)
  then have "Language_str tests_env tests_state
          \<lparr>alpha3 = uni ''por'', country = Some (Country (uni ''BR'')), script = None\<rparr>
          = (Inr (uni ''pt-BR''), tests_state)"
    by (simp add: Language_str_def str_suffix_def Country_str_def)
  then show "Language_hash h tests_env tests_state
        \<lparr>alpha3 = uni ''por'', country = Some (Country (uni ''BR'')), script = None\<rparr>
        = (Inr (h (uni ''pt-BR'')), tests_state)"
    by (simp add: Language_hash_def)
next
  assume "fst (Language_str e s L1) = fst (Language_str e s L2)"
  then show "fst (Language_hash h e s L1) = fst (Language_hash h e s L2)"
    by (cases "Language_str e s L1"; cases "Language_str e s L2")
       (auto simp: Language_hash_def split: sum.splits)
qed (simp_all add: Language_hash_def)

theorem Language_hash_of_str_witness:
  "Language_hash (\<lambda>t. int (length t)) tests_env tests_state
      \<lparr>alpha3 = uni ''eng'', country = Some (Country (uni ''US'')), script = Some (Script (uni ''Latn''))\<rparr>
     = (Inr 10, tests_state)
   \<and> LANGUAGE_CONVERTERS initial_state (uni ''alpha2'') = None
   \<and> Language_hash (\<lambda>t. int (length t)) (tests_env\<lparr>entry_points := []\<rparr>) initial_state
      \<lparr>alpha3 = uni ''eng'', country = None, script = None\<rparr>
     = (Inl (AttributeError (uni ''alpha2'')), initial_state)
   \<and> fst (Language_hash (\<lambda>t. int (length t)) tests_env tests_state
            \<lparr>alpha3 = uni ''ace'', country = Some (Country (uni ''BR'')), script = None\<rparr>)
     = fst (Language_hash (\<lambda>t. int (length t)) tests_env tests_state
            \<lparr>alpha3 = uni ''ace'', country = None, script = Some (Script (uni ''BR''))\<rparr>)"
proof -
  let ?h = "\<lambda>t :: unicode. int (length t)"
  have s1: "Language_str tests_env tests_state
      \<lparr>alpha3 = uni ''eng'', country = Some (Country (uni ''US'')), script = Some (Script (uni ''Latn''))\<rparr>
     = (Inr (uni ''en-US-Latn''), tests_state)"
    by (simp add: Language_str_def tests_getattr str_suffix_def Country_str_def Script_str_def)
  have n: "LANGUAGE_CONVERTERS initial_state (uni ''alpha2'') = None"
    by (simp add: initial_state_def)
  have s2: "Language_str (tests_env\<lparr>entry_points := []\<rparr>) initial_state
      \<lparr>alpha3 = uni ''eng'', country = None, script = None\<rparr>
     = (Inl (AttributeError (uni ''alpha2'')), initial_state)"
    by (simp add: Language_str_def Language_getattr_def get_language_converter_unknown [OF n])
  have g: "Language_getattr tests_env tests_state
             \<lparr>alpha3 = uni ''ace'', country = Some (Country (uni ''BR'')), script = None\<rparr> (uni ''alpha2'')
           = (Inl (LanguageConvertError (uni ''ace'') (Some (uni ''BR'')) None), tests_state)"
     "Language_getattr tests_env tests_state
             \<lparr>alpha3 = uni ''ace'', country = None, script = Some (Script (uni ''BR''))\<rparr> (uni ''alpha2'')
           = (Inl (LanguageConvertError (uni ''ace'') None (Some (uni ''BR''))), tests_state)"
    by (simp_all add: Language_getattr_def get_language_converter_bound [OF tests_state_alpha2]
          tests_alpha2_convert TestConverter_convert_def tests_to_alpha2_def)
  have s3: "fst (Language_str tests_env tests_state
            \<lparr>alpha3 = uni ''ace'', country = Some (Country (uni ''BR'')), script = None\<rparr>)
     = fst (Language_str tests_env tests_state
            \<lparr>alpha3 = uni ''ace'', country = None, script = Some (Script (uni ''BR''))\<rparr>)"
    by (simp add: Language_str_def g str_suffix_def Country_str_def Script_str_def)
  have 1: "Language_hash ?h tests_env tests_state
      \<lparr>alpha3 = uni ''eng'', country = Some (Country (uni ''US'')), script = Some (Script (uni ''Latn''))\<rparr>
     = (Inr 10, tests_state)"
    using s1 Language_hash_of_str [of tests_env tests_state _ "uni ''en-US-Latn''" tests_state ?h]
    by simp
  have 2: "Language_hash ?h (tests_env\<lparr>entry_points := []\<rparr>) initial_state
      \<lparr>alpha3 = uni ''eng'', country = None, script = None\<rparr>
     = (Inl (AttributeError (uni ''alpha2'')), initial_state)"
    using s2 Language_hash_of_str [of "tests_env\<lparr>entry_points := []\<rparr>" initial_state _ _
             initial_state ?h "AttributeError (uni ''alpha2'')"]
    by simp
  have 3: "fst (Language_hash ?h tests_env tests_state
            \<lparr>alpha3 = uni ''ace'', country = Some (Country (uni ''BR'')), script = None\<rparr>)
     = fst (Language_hash ?h tests_env tests_state
            \<lparr>alpha3 = uni ''ace'', country = None, script = Some (Script (uni ''BR''))\<rparr>)"
    using s3 Language_hash_of_str [of tests_env tests_state _ _ _ ?h _
            "\<lparr>alpha3 = uni ''ace'', country = Some (Country (uni ''BR'')), script = None\<rparr>"
            "\<lparr>alpha3 = uni ''ace'', country = None, script = Some (Script (uni ''BR''))\<rparr>"]
    by blast
  show ?thesis using 1 n 2 3 by blast
qed

section \<open>The IETF parser\<close>



text \<open>
  C5. \<^verbatim>\<open>Language.fromietf\<close> accepts at most one script subtag, and only as the last
  subtag: when it returns a Language, every subtag after the language but the last has two
  characters; and when subtags remain after a script subtag has been stored, it fails with
  the format error that lists the remaining subtags.
\<close>

theorem fromietf_script_last:
  assumes "str_split hyphen ietf = subtag # subtags"
  shows "(fromietf e s ietf = (Inr L, s1) \<longrightarrow> (\<forall>x\<in>set (butlast subtags). length x = 2))
    \<and> (subtags = cs @ sc # rest
        \<and> fromietf_language e s subtag = (Inr l, s2)
        \<and> (script l = None \<or> cs = [])
        \<and> (\<forall>c\<in>set cs. length c = 2 \<and> str_upper c \<in> COUNTRIES e)
        \<and> length sc \<noteq> 2 \<and> str_capitalize sc \<in> SCRIPTS e
        \<and> rest \<noteq> []
        \<longrightarrow> fromietf e s ietf = (Inl (ValueError_unmatched_subtags rest), s2))"
proof (intro conjI impI)
  assume "fromietf e s ietf = (Inr L, s1)"
  then obtain l' where "fromietf_loop e l' subtags = Inr L"
    using assms by (auto simp: fromietf_def split: prod.splits sum.splits)
  then show "\<forall>x\<in>set (butlast subtags). length x = 2"
    by (rule fromietf_loop_accepts)
next
  assume h: "subtags = cs @ sc # rest
        \<and> fromietf_language e s subtag = (Inr l, s2)
        \<and> (script l = None \<or> cs = [])
        \<and> (\<forall>c\<in>set cs. length c = 2 \<and> str_upper c \<in> COUNTRIES e)
        \<and> length sc \<noteq> 2 \<and> str_capitalize sc \<in> SCRIPTS e
        \<and> rest \<noteq> []"
  then have "fromietf_loop e l subtags = Inl (ValueError_unmatched_subtags rest)"
    using fromietf_loop_after_script [of l cs e sc rest] by blast
  then show "fromietf e s ietf = (Inl (ValueError_unmatched_subtags rest), s2)"
    using assms h by (simp add: fromietf_def)
qed

theorem fromietf_script_last_witness:
  "fromietf tests_env tests_state (uni ''fra-Latn-FR'')
     = (Inl (ValueError_unmatched_subtags [uni ''FR'']), tests_state)
   \<and> fromietf tests_env tests_state (uni ''fra-FR-Latn'')
     = (Inr \<lparr>alpha3 = uni ''fra'', country = Some (Country (uni ''FR'')),
             script = Some (Script (uni ''Latn''))\<rparr>, tests_state)
   \<and> set (butlast [uni ''FR'', uni ''Latn'']) = {uni ''FR''} \<and> length (uni ''FR'') = 2"
proof -
  have h: "[uni ''Latn'', uni ''FR''] = [] @ uni ''Latn'' # [uni ''FR'']
        \<and> fromietf_language tests_env tests_state (uni ''fra'')
            = (Inr \<lparr>alpha3 = uni ''fra'', country = None, script = None\<rparr>, tests_state)
        \<and> (script \<lparr>alpha3 = uni ''fra'', country = None, script = None\<rparr> = None
            \<or> [] = ([] :: unicode list))
        \<and> (\<forall>c\<in>set []. length c = 2 \<and> str_upper c \<in> COUNTRIES tests_env)
        \<and> length (uni ''Latn'') \<noteq> 2 \<and> str_capitalize (uni ''Latn'') \<in> SCRIPTS tests_env
        \<and> [uni ''FR''] \<noteq> []"
    using tests_language_fra tests_tables by simp
  have ok: "fromietf tests_env tests_state (uni ''fra-FR-Latn'')
     = (Inr \<lparr>alpha3 = uni ''fra'', country = Some (Country (uni ''FR'')),
             script = Some (Script (uni ''Latn''))\<rparr>, tests_state)"
    by (simp add: fromietf_def tests_split tests_language_fra tests_loop_FR_Latn
          del: str_split.simps fromietf_loop.simps)
  have 1: "fromietf tests_env tests_state (uni ''fra-Latn-FR'')
     = (Inl (ValueError_unmatched_subtags [uni ''FR'']), tests_state)"
    using h fromietf_script_last [OF tests_split(5), of tests_env tests_state _ _
            "[]" "uni ''Latn''" "[uni ''FR'']"]
    by blast
  have 2: "\<forall>x\<in>set (butlast [uni ''FR'', uni ''Latn'']). length x = 2"
    using ok fromietf_script_last [OF tests_split(2), of tests_env tests_state]
    by blast
  have 3: "set (butlast [uni ''FR'', uni ''Latn'']) = {uni ''FR''}"
    by simp
  from 2 3 have "length (uni ''FR'') = 2" by simp
  with 1 ok 3 show ?thesis by blast
qed

text \<open>
  C8. A tag made of a language subtag that resolves to a Language without script, followed
  by two or more two-character subtags that are country codes and by no script subtag, is
  parsed without failure, and the Language carries the last country subtag.
\<close>

theorem fromietf_last_country_wins:
  assumes "str_split hyphen ietf = subtag # cs"
    and "fromietf_language e s subtag = (Inr l, s')"
    and "script l = None"
    and "2 \<le> length cs"
    and "\<forall>c\<in>set cs. length c = 2 \<and> str_upper c \<in> COUNTRIES e"
  shows "fromietf e s ietf = (Inr (l\<lparr>country := Some (Country (str_upper (last cs)))\<rparr>), s')"
proof -
  have "cs \<noteq> []" using assms(4) by auto
  then have "fromietf_loop e l cs = Inr (l\<lparr>country := Some (Country (str_upper (last cs)))\<rparr>)"
    using fromietf_loop_countries [OF assms(3,5)] by simp
  then show ?thesis using assms(1,2) by (simp add: fromietf_def)
qed

theorem fromietf_last_country_wins_witness:
  "fromietf tests_env tests_state (uni ''fra-FR-US'')
     = (Inr \<lparr>alpha3 = uni ''fra'', country = Some (Country (uni ''US'')), script = None\<rparr>, tests_state)"
proof -
  have c: "\<forall>c\<in>set [uni ''FR'', uni ''US'']. length c = 2 \<and> str_upper c \<in> COUNTRIES tests_env"
    by (simp add: tests_case tests_env_def)
  show ?thesis
    using fromietf_last_country_wins [OF tests_split(4) tests_language_fra _ _ c]
    by (simp add: tests_case)
qed





section \<open>Round trip\<close>

text \<open>
  C1. Let the country and script tables hold ISO-shaped codes, let \<open>L\<close> be a Language
  whose codes are keys of the tables, and let the alpha2 converter be loaded, map the
  alpha3 code of \<open>L\<close> to a two-letter lower-case code and map that code back to the alpha3
  code. Then \<^verbatim>\<open>Language.fromietf(str(L))\<close> is \<open>L\<close>, whether or not \<open>L\<close> has a country
  and whether or not it has a script.
\<close>

theorem fromietf_str_roundtrip:
  assumes countries: "\<forall>c\<in>COUNTRIES e. iso_country_code c"
    and scripts: "\<forall>c\<in>SCRIPTS e. iso_script_code c"
    and valid: "valid_Language e L"
    and reg: "LANGUAGE_CONVERTERS s (uni ''alpha2'') = Some conv"
    and attr: "Language_attrs s (uni ''fromalpha2'') = Some (Partial_fromcode (uni ''alpha2''))"
    and fwd: "convert conv (alpha3 L) (map_option alpha2 (country L))
                (map_option code (script L)) = Inr a2"
    and shape: "iso_alpha2_code a2"
    and rev: "reverse conv = Some r"
    and inv: "r a2 = Inr (alpha3 L, None, None)"
  shows "\<exists>t. Language_str e s L = (Inr t, s) \<and> fromietf e s t = (Inr L, s)"
proof -
  let ?l0 = "\<lparr>alpha3 = alpha3 L, country = None, script = None\<rparr>"
  let ?cs = "case country L of None \<Rightarrow> [] | Some c \<Rightarrow> [alpha2 c]"
  let ?ss = "case script L of None \<Rightarrow> [] | Some x \<Rightarrow> [code x]"
  let ?t = "str_suffix L a2"
  note a2 = iso_alpha2_codeD [OF shape]
  have str: "Language_str e s L = (Inr ?t, s)"
    by (simp add: Language_str_def Language_getattr_bound [OF reg fwd])
  have cwf: "\<And>c. country L = Some c \<Longrightarrow> alpha2 c \<in> COUNTRIES e \<and> iso_country_code (alpha2 c)"
    using valid countries by (auto simp: valid_Language_def)
  have swf: "\<And>x. script L = Some x \<Longrightarrow> code x \<in> SCRIPTS e \<and> iso_script_code (code x)"
    using valid scripts by (auto simp: valid_Language_def)
  have split: "str_split hyphen ?t = a2 # ?cs @ ?ss"
  proof (cases "country L"; cases "script L")
    assume "country L = None" "script L = None"
    then show ?thesis by (simp add: str_suffix_def str_split_no_sep a2(3))
  next
    fix x assume h: "country L = None" "script L = Some x"
    then have "hyphen \<notin> set (code x)" using swf iso_script_codeD(3) by blast
    then show ?thesis
      using h by (simp add: str_suffix_def Script_str_def uni_hyphen str_split_append a2(3) str_split_no_sep)
  next
    fix c assume h: "country L = Some c" "script L = None"
    then have "hyphen \<notin> set (alpha2 c)" using cwf iso_country_codeD(3) by blast
    then show ?thesis
      using h by (simp add: str_suffix_def Country_str_def uni_hyphen str_split_append a2(3) str_split_no_sep)
  next
    fix c x assume h: "country L = Some c" "script L = Some x"
    then have n: "hyphen \<notin> set (alpha2 c)" "hyphen \<notin> set (code x)"
      using cwf swf iso_country_codeD(3) iso_script_codeD(3) by blast+
    have "str_suffix L a2 = a2 @ hyphen # (alpha2 c @ hyphen # code x)"
      using h by (simp add: str_suffix_def Country_str_def Script_str_def uni_hyphen)
    then show ?thesis
      using h n by (simp add: str_split_append a2(3) str_split_no_sep)
  qed
  have lang: "fromietf_language e s a2 = (Inr ?l0, s)"
    using fromietf_language_alpha2 [OF a2(1) attr reg rev, of e] valid
    by (simp add: a2(2) inv Language_init_def valid_Language_def)
  have loop: "fromietf_loop e ?l0 (?cs @ ?ss) = Inr L"
  proof (cases "country L"; cases "script L")
    assume h: "country L = None" "script L = None"
    then show ?thesis by simp
  next
    fix x assume h: "country L = None" "script L = Some x"
    note d = iso_script_codeD [of "code x"]
    show ?thesis
      using h swf [OF h(2)] d
      by (simp add: Script_init_valid del: str_capitalize.simps)
  next
    fix c assume h: "country L = Some c" "script L = None"
    note d = iso_country_codeD [of "alpha2 c"]
    show ?thesis
      using h cwf [OF h(1)] d by (simp add: Country_init_valid)
  next
    fix c x assume h: "country L = Some c" "script L = Some x"
    note d = iso_country_codeD [of "alpha2 c"] iso_script_codeD [of "code x"]
    show ?thesis
      using h cwf [OF h(1)] swf [OF h(2)] d
      by (simp add: Country_init_valid Script_init_valid del: str_capitalize.simps)
  qed
  have "fromietf e s ?t = (Inr L, s)"
    by (simp add: fromietf_def split lang loop del: str_split.simps)
  with str show ?thesis by blast
qed

theorem fromietf_str_roundtrip_witness:
  "Language_str tests_env tests_state
      \<lparr>alpha3 = uni ''eng'', country = Some (Country (uni ''US'')), script = Some (Script (uni ''Latn''))\<rparr>
     = (Inr (uni ''en-US-Latn''), tests_state)
   \<and> fromietf tests_env tests_state (uni ''en-US-Latn'')
     = (Inr \<lparr>alpha3 = uni ''eng'', country = Some (Country (uni ''US'')), script = Some (Script (uni ''Latn''))\<rparr>,
        tests_state)"
proof -
  let ?L = "\<lparr>alpha3 = uni ''eng'', country = Some (Country (uni ''US'')), script = Some (Script (uni ''Latn''))\<rparr>"
  have v: "valid_Language tests_env ?L"
    by (simp add: valid_Language_def tests_env_def)
  have f: "convert tests_alpha2 (alpha3 ?L) (map_option alpha2 (country ?L))
             (map_option code (script ?L)) = Inr (uni ''en'')"
    by (simp add: tests_alpha2_convert TestConverter_convert_def tests_to_alpha2_def)
  have sh: "iso_alpha2_code (uni ''en'')"
    by (simp add: iso_alpha2_code_def is_lower_letter_def uni_def)
  have i: "TestConverter_reverse tests_from_alpha2 (uni ''en'') = Inr (alpha3 ?L, None, None)"
    by (simp add: TestConverter_reverse_def tests_from_alpha2_def)
  have s: "Language_str tests_env tests_state ?L = (Inr (uni ''en-US-Latn''), tests_state)"
    by (simp add: Language_str_def tests_getattr str_suffix_def Country_str_def Script_str_def)
  obtain t where "Language_str tests_env tests_state ?L = (Inr t, tests_state)"
    and "fromietf tests_env tests_state t = (Inr ?L, tests_state)"
    using fromietf_str_roundtrip [OF tests_tables_iso v tests_state_alpha2
            tests_state_fromalpha2 f sh tests_alpha2_reverse i]
    by blast
  with s show ?thesis by simp
qed

section \<open>Constructors and the registry\<close>

text \<open>
  C2. The claim is that at every point in time the class has a \<^verbatim>\<open>from<name>\<close>
  constructor exactly for the names that the registry binds to a reverse converter. The
  source breaks it on this run: register a reverse converter as \<^verbatim>\<open>code\<close>, unregister it
  (\<^verbatim>\<open>delattr\<close> removes \<^verbatim>\<open>Language.fromcode\<close>, the class method included), then register
  the test suite's converter as \<^verbatim>\<open>test\<close>. The last call stores the converter in the
  dictionary and then raises \<^verbatim>\<open>AttributeError\<close> while reading
  \<^verbatim>\<open>Language.fromcode\<close>, so that \<^verbatim>\<open>test\<close> is bound to a reverse converter and
  \<^verbatim>\<open>Language.fromtest\<close> does not exist.
\<close>

theorem register_after_unregister_code:
  "fst (register_language_converter
          (run tests_env initial_state
             [Register (uni ''code'') tests_TestConverter, Unregister (uni ''code'')])
          (uni ''test'') tests_TestConverter) = Inl (AttributeError (uni ''fromcode''))
   \<and> run tests_env initial_state
        [Register (uni ''code'') tests_TestConverter, Unregister (uni ''code''),
         Register (uni ''test'') tests_TestConverter]
      = \<lparr>LANGUAGE_CONVERTERS = [uni ''test'' \<mapsto> tests_TestConverter],
          Language_attrs = [uni ''fromietf'' \<mapsto> Classmethod]\<rparr>
   \<and> reverse tests_TestConverter \<noteq> None
   \<and> \<not> constructors_match_registry
         (run tests_env initial_state
            [Register (uni ''code'') tests_TestConverter, Unregister (uni ''code''),
             Register (uni ''test'') tests_TestConverter])"
proof -
  let ?s3 = "\<lparr>LANGUAGE_CONVERTERS = [uni ''test'' \<mapsto> tests_TestConverter],
              Language_attrs = [uni ''fromietf'' \<mapsto> Classmethod]\<rparr>"
  have rv: "reverse tests_TestConverter \<noteq> None"
    by (simp add: tests_TestConverter_def TestConverter_def)
  have r: "fst (register_language_converter
          (run tests_env initial_state
             [Register (uni ''code'') tests_TestConverter, Unregister (uni ''code'')])
          (uni ''test'') tests_TestConverter) = Inl (AttributeError (uni ''fromcode''))"
    by (simp add: run_def register_language_converter_def unregister_language_converter_def
          initial_state_def tests_TestConverter_def TestConverter_def)
  have s3: "run tests_env initial_state
        [Register (uni ''code'') tests_TestConverter, Unregister (uni ''code''),
         Register (uni ''test'') tests_TestConverter] = ?s3"
    by (simp add: run_def register_language_converter_def unregister_language_converter_def
          initial_state_def tests_TestConverter_def TestConverter_def)
  have "Language_attrs ?s3 (uni ''from'' @ uni ''test'') \<noteq> Some (Partial_fromcode (uni ''test''))"
    by simp
  moreover have "\<exists>conv. LANGUAGE_CONVERTERS ?s3 (uni ''test'') = Some conv \<and> reverse conv \<noteq> None"
    using rv by simp
  ultimately have "\<not> constructors_match_registry ?s3"
    unfolding constructors_match_registry_def by blast
  with r s3 rv show ?thesis by simp
qed

end
